theory Spec2Isabelle
  imports Main "HOL-Library.Multiset"
begin

section \<open>Data model\<close>

text \<open>
  The rows of \<open>orders\<close> the two pages hold, with the columns the functions below test or
  write: identifiers and statuses, the strings the client hands over. The amount of an
  order is a JavaScript number that the pages add and print; it is not a field here.
\<close>

record order_row =
  order_id :: string
  user_id :: string
  show_id :: string
  status :: string

text \<open>A row of the bulk insert into \<open>seats\<close> that follows the insert of a show.\<close>

record seat_row =
  seat_show_id :: string
  seat_number :: string
  is_booked :: bool

section \<open>Show creation: \<open>handleAddShow\<close> of the admin page\<close>

subsection \<open>Seat generation\<close>

text \<open>
  The template literal \<open>`${row}${i + 1}`\<close> prints the number in decimal.
\<close>

definition digit :: "nat \<Rightarrow> char" where
  "digit n = ''0123456789'' ! (n mod 10)"

fun string_of_nat :: "nat \<Rightarrow> string" where
  "string_of_nat n =
     (if n < 10 then [digit n] else string_of_nat (n div 10) @ [digit (n mod 10)])"

definition ROWS :: "string list" where
  "ROWS = [''A'', ''B'', ''C'', ''D'', ''E'', ''F'', ''G'', ''H'']"

definition COLS :: nat where
  "COLS = 8"

text \<open>
  \<open>ROWS.flatMap((row) => Array.from({ length: COLS }, (_, i) => ({ show_id, seat_number,
  is_booked: false })))\<close>, for the identifier of the show just inserted.
\<close>

definition seatRows :: "string \<Rightarrow> seat_row list" where
  "seatRows sid =
     concat (map (\<lambda>row.
        map (\<lambda>i. \<lparr>seat_show_id = sid, seat_number = row @ string_of_nat (i + 1),
                   is_booked = False\<rparr>) [0..<COLS]) ROWS)"

subsection \<open>The handler\<close>

record show_form =
  movie_id :: string
  screen :: string
  show_time :: string

definition emptyShow :: show_form where
  "emptyShow = \<lparr>movie_id = [], screen = [], show_time = []\<rparr>"

text \<open>The component's two state hooks the handler writes.\<close>

record form_state =
  showForm :: show_form
  savingShow :: bool

text \<open>
  What the client answers: \<open>{ data, error }\<close> for the insert of the show (the handler
  reads only \<open>showData.id\<close> and \<open>error.message\<close>), \<open>{ error }\<close> for the seats.
\<close>

record pg_error =
  message :: string

record show_reply =
  data :: "string option"
  error :: "pg_error option"

record show_insert =
  ins_movie_id :: string
  ins_screen :: string
  ins_show_time :: string

text \<open>
  Everything the handler does besides writing its state, in the order it does it.
  \<open>RangeError\<close> is what \<open>new Date(...).toISOString()\<close> throws on a string that is no
  date; the handler does not catch it.
\<close>

datatype effect =
    Toast_error string
  | Toast_success string
  | Insert_show show_insert
  | Insert_seats "seat_row list"
  | Fetch_shows
  | RangeError

text \<open>
  \<open>isoTime\<close> is the result of \<open>new Date(showForm.show_time).toISOString()\<close> (\<open>None\<close> when
  it throws); \<open>reply\<close> and \<open>seatError\<close> are the answers of the two inserts. An empty
  string is falsy, so \<open>!showForm.movie_id\<close> is "the field is empty".
\<close>

definition handleAddShow ::
  "string option \<Rightarrow> show_reply \<Rightarrow> pg_error option \<Rightarrow> form_state \<Rightarrow> effect list \<times> form_state"
where
  "handleAddShow isoTime reply seatError st =
     (let f = showForm st in
      if movie_id f = [] \<or> screen f = [] \<or> show_time f = [] then
        ([Toast_error ''Movie, screen, and show time are required''], st)
      else
        (case isoTime of
           None \<Rightarrow> ([RangeError], st\<lparr>savingShow := True\<rparr>)
         | Some t \<Rightarrow>
            (let req = Insert_show
                   \<lparr>ins_movie_id = movie_id f, ins_screen = screen f, ins_show_time = t\<rparr>
             in
               (case (error reply, data reply) of
                  (Some e, _) \<Rightarrow> ([req, Toast_error (message e)], st\<lparr>savingShow := False\<rparr>)
                | (None, None) \<Rightarrow>
                    ([req, Toast_error ''Failed to create show''], st\<lparr>savingShow := False\<rparr>)
                | (None, Some sid) \<Rightarrow>
                    (case seatError of
                       Some e \<Rightarrow>
                         ([req, Insert_seats (seatRows sid),
                           Toast_error (''Show created but seats failed: '' @ message e)],
                          st\<lparr>savingShow := False\<rparr>)
                     | None \<Rightarrow>
                         ([req, Insert_seats (seatRows sid),
                           Toast_success ''Show scheduled with 64 seats!'', Fetch_shows],
                          st\<lparr>savingShow := False, showForm := emptyShow\<rparr>))))))"

definition is_success :: "effect \<Rightarrow> bool" where
  "is_success e = (case e of Toast_success _ \<Rightarrow> True | _ \<Rightarrow> False)"

definition is_failure :: "effect \<Rightarrow> bool" where
  "is_failure e = (case e of Toast_error _ \<Rightarrow> True | _ \<Rightarrow> False)"

section \<open>The admin dashboard's orders\<close>

datatype tab = Orders | Movies | Snacks

datatype orders_view = Active | History

text \<open>
  A call of \<open>updateStatus(orderId, status)\<close> that has been started and has not finished:
  the function is \<open>async\<close>, it sends the write, waits for the answer and only then
  rewrites the list. \<open>served\<close> says that the service has dealt with the write and the
  answer is on its way.
\<close>

record call =
  call_order :: string
  call_status :: string
  served :: bool

text \<open>
  The state hooks of \<open>AdminDashboard\<close> that the orders tab reads; \<open>remote\<close>, the rows of
  the \<open>orders\<close> table at the service, which the component reaches through the client;
  and the calls of \<open>updateStatus\<close> in flight, oldest first.
\<close>

record admin_state =
  remote :: "order_row list"
  orders :: "order_row list"
  filterShow :: string
  ordersView :: orders_view
  activeTab :: tab
  in_flight :: "call list"

text \<open>
  \<open>prev.map((o) => (o.id === orderId ? { ...o, status } : o))\<close>. The same function is
  what \<open>update({ status }).eq("id", orderId)\<close> does to the rows of the table.
\<close>

definition set_status :: "string \<Rightarrow> string \<Rightarrow> order_row list \<Rightarrow> order_row list" where
  "set_status orderId s = map (\<lambda>od. if order_id od = orderId then od\<lparr>status := s\<rparr> else od)"

text \<open>
  \<open>updateStatus\<close> awaits the write, never reads its answer, and rewrites its own list
  whatever the answer was. \<open>refused\<close> is the answer's error, if there was one: a write
  the service refused left the table as it was. This is one call from its start to its
  end with nothing happening in between; \<open>click\<close>, \<open>serve\<close> and \<open>settle\<close> below are
  the same call in the steps in which it really runs.
\<close>

definition updateStatus :: "pg_error option \<Rightarrow> string \<Rightarrow> string \<Rightarrow> admin_state \<Rightarrow> admin_state" where
  "updateStatus refused orderId s st =
     st\<lparr>remote := (case refused of None \<Rightarrow> set_status orderId s (remote st)
                                 | Some _ \<Rightarrow> remote st),
        orders := set_status orderId s (orders st)\<rparr>"

definition byShow :: "admin_state \<Rightarrow> order_row list" where
  "byShow st =
     (if filterShow st = ''all'' then orders st
      else filter (\<lambda>od. show_id od = filterShow st) (orders st))"

definition activeOrders :: "admin_state \<Rightarrow> order_row list" where
  "activeOrders st = filter (\<lambda>od. status od \<noteq> ''Collected'') (byShow st)"

definition historyOrders :: "admin_state \<Rightarrow> order_row list" where
  "historyOrders st = filter (\<lambda>od. status od = ''Collected'') (byShow st)"

definition filtered :: "admin_state \<Rightarrow> order_row list" where
  "filtered st = (if ordersView st = Active then activeOrders st else historyOrders st)"

text \<open>
  The buttons of one table row, each named by the status its click passes to
  \<open>updateStatus\<close>: the Actions cell exists in the active view only, and the third button
  is rendered under \<open>order.status === "Ready"\<close>.
\<close>

definition action_buttons :: "orders_view \<Rightarrow> order_row \<Rightarrow> string list" where
  "action_buttons v od =
     (if v = Active then
        [''Preparing'', ''Ready''] @ (if status od = ''Ready'' then [''Collected''] else [])
      else [])"

text \<open>
  A click on the button \<open>s\<close> of the row of \<open>od\<close>: there is such a button when the orders
  tab is open, \<open>od\<close> is a row of the table shown and \<open>s\<close> is one of its buttons. The
  click starts \<open>updateStatus(order.id, s)\<close>: the write is sent and the call waits. Nothing
  on the page changes yet, and every button stays where it is.
\<close>

definition click :: "order_row \<Rightarrow> string \<Rightarrow> admin_state \<Rightarrow> admin_state option" where
  "click od s st =
     (if activeTab st = Orders \<and> od \<in> set (filtered st) \<and> s \<in> set (action_buttons (ordersView st) od)
      then Some (st\<lparr>in_flight := in_flight st @
                  [\<lparr>call_order = order_id od, call_status = s, served = False\<rparr>]\<rparr>)
      else None)"

text \<open>
  The service deals with the write of the call at position \<open>k\<close>: it changes the table, or
  refuses and leaves it. Writes are dealt with in any order.
\<close>

definition serve :: "nat \<Rightarrow> pg_error option \<Rightarrow> admin_state \<Rightarrow> admin_state option" where
  "serve k refused st =
     (if k < length (in_flight st) \<and> \<not> served (in_flight st ! k) then
        (let c = in_flight st ! k in
         Some (st\<lparr>remote := (case refused of
                               None \<Rightarrow> set_status (call_order c) (call_status c) (remote st)
                             | Some _ \<Rightarrow> remote st),
                  in_flight := (in_flight st)[k := c\<lparr>served := True\<rparr>]\<rparr>))
      else None)"

text \<open>
  The answer of the call at position \<open>k\<close> arrives and the call goes on after its
  \<open>await\<close>: \<open>setOrders\<close> rewrites the list as it is at that moment, and the call is over.
\<close>

definition settle :: "nat \<Rightarrow> admin_state \<Rightarrow> admin_state option" where
  "settle k st =
     (if k < length (in_flight st) \<and> served (in_flight st ! k) then
        (let c = in_flight st ! k in
         Some (st\<lparr>orders := set_status (call_order c) (call_status c) (orders st),
                  in_flight := take k (in_flight st) @ drop (Suc k) (in_flight st)\<rparr>))
      else None)"

text \<open>
  What happens on the dashboard, one step at a time: the admin clicks a status button or
  switches tab, view or filter; a write is dealt with; an answer arrives.
\<close>

datatype admin_action =
    Click order_row string
  | Serve nat "pg_error option"
  | Settle nat
  | SetActiveTab tab
  | SetOrdersView orders_view
  | SetFilterShow string

fun act :: "admin_action \<Rightarrow> admin_state \<Rightarrow> admin_state option" where
  "act (Click od s) st = click od s st"
| "act (Serve k refused) st = serve k refused st"
| "act (Settle k) st = settle k st"
| "act (SetActiveTab t) st = Some (st\<lparr>activeTab := t\<rparr>)"
| "act (SetOrdersView v) st = Some (st\<lparr>ordersView := v\<rparr>)"
| "act (SetFilterShow f) st = Some (st\<lparr>filterShow := f\<rparr>)"

text \<open>A sequence of steps; \<open>None\<close> when one of them is not there to be done.\<close>

fun run :: "admin_action list \<Rightarrow> admin_state \<Rightarrow> admin_state option" where
  "run [] st = Some st"
| "run (a # as) st = (case act a st of None \<Rightarrow> None | Some st' \<Rightarrow> run as st')"



text \<open>The order of the workflow, on the four statuses it names.\<close>

definition known_statuses :: "string list" where
  "known_statuses = [''Confirmed'', ''Preparing'', ''Ready'', ''Collected'']"






section \<open>The change feed and the two subscriptions\<close>

datatype change_kind = INSERT | UPDATE | DELETE

definition kind_name :: "change_kind \<Rightarrow> string" where
  "kind_name k = (case k of INSERT \<Rightarrow> ''INSERT'' | UPDATE \<Rightarrow> ''UPDATE'' | DELETE \<Rightarrow> ''DELETE'')"

text \<open>A committed change of a table, as the feed announces it.\<close>

record change =
  kind :: change_kind
  of_schema :: string
  of_table :: string

text \<open>
  The arguments of \<open>.channel(name).on("postgres_changes", { event, schema, table }, ...)\<close>.
\<close>

record subscription =
  channel :: string
  event :: string
  schema :: string
  table :: string

text \<open>
  Modelled from the spec: the feed itself is the service's, not code under src/. It is
  "a publish/subscribe channel keyed by table name, emitting an event of kind {insert,
  update, delete, any}": a subscription is handed a change of its table whose kind it
  names, and the kind \<open>*\<close> names them all.
\<close>

definition delivers :: "subscription \<Rightarrow> change \<Rightarrow> bool" where
  "delivers sub c =
     (schema sub = of_schema c \<and> table sub = of_table c \<and>
      (event sub = ''*'' \<or> event sub = kind_name (kind c)))"

definition admin_subscription :: subscription where
  "admin_subscription =
     \<lparr>channel = ''orders-realtime'', event = ''*'', schema = ''public'', table = ''orders''\<rparr>"

definition my_orders_subscription :: subscription where
  "my_orders_subscription =
     \<lparr>channel = ''my-orders-realtime'', event = ''UPDATE'', schema = ''public'',
      table = ''orders''\<rparr>"

definition order_change :: "change_kind \<Rightarrow> change" where
  "order_change k = \<lparr>kind = k, of_schema = ''public'', of_table = ''orders''\<rparr>"

text \<open>
  \<open>fetchData\<close> of the dashboard, for the answer of the orders query (\<open>None\<close>: no data
  came), and the dashboard's callback: a change handed to its subscription runs it.
\<close>

definition fetchData :: "order_row list option \<Rightarrow> admin_state \<Rightarrow> admin_state" where
  "fetchData res st = (case res of Some rows \<Rightarrow> st\<lparr>orders := rows\<rparr> | None \<Rightarrow> st)"

definition admin_on_change :: "change \<Rightarrow> order_row list option \<Rightarrow> admin_state \<Rightarrow> admin_state" where
  "admin_on_change c res st = (if delivers admin_subscription c then fetchData res st else st)"

section \<open>The customer's orders page\<close>

datatype my_tab = TabActive | TabHistory

record my_orders_state =
  my_orders :: "order_row list"
  loading :: bool
  my_tab :: my_tab

text \<open>\<open>fetchOrders\<close>: \<open>if (data) setOrders(data); setLoading(false)\<close>.\<close>

definition fetchOrders :: "order_row list option \<Rightarrow> my_orders_state \<Rightarrow> my_orders_state" where
  "fetchOrders res st =
     (case res of Some rows \<Rightarrow> st\<lparr>my_orders := rows, loading := False\<rparr>
                | None \<Rightarrow> st\<lparr>loading := False\<rparr>)"

definition my_orders_on_change ::
  "change \<Rightarrow> order_row list option \<Rightarrow> my_orders_state \<Rightarrow> my_orders_state" where
  "my_orders_on_change c res st =
     (if delivers my_orders_subscription c then fetchOrders res st else st)"

definition active :: "order_row list \<Rightarrow> order_row list" where
  "active os = filter (\<lambda>od. status od \<noteq> ''Collected'') os"

definition history :: "order_row list \<Rightarrow> order_row list" where
  "history os = filter (\<lambda>od. status od = ''Collected'') os"

definition shown :: "my_orders_state \<Rightarrow> order_row list" where
  "shown st = (if my_tab st = TabActive then active (my_orders st) else history (my_orders st))"

subsection \<open>The status badge\<close>

datatype icon = CheckCircle | ChefHat | Star

record status_style =
  cls :: string
  icon :: icon

text \<open>The own properties of the object literal \<open>STATUS_STYLES\<close>.\<close>

definition STATUS_STYLES :: "(string \<times> status_style) list" where
  "STATUS_STYLES =
     [(''Confirmed'', \<lparr>cls = ''bg-primary/10 text-primary'', icon = CheckCircle\<rparr>),
      (''Preparing'', \<lparr>cls = ''bg-yellow-500/10 text-yellow-400'', icon = ChefHat\<rparr>),
      (''Ready'', \<lparr>cls = ''bg-green-500/10 text-green-400'', icon = Star\<rparr>),
      (''Collected'', \<lparr>cls = ''bg-muted/30 text-muted-foreground'', icon = CheckCircle\<rparr>)]"

text \<open>
  \<open>STATUS_STYLES\<close> is a plain object, so \<open>STATUS_STYLES[key]\<close> reads its own property
  \<open>key\<close> and, when it has none, the property of that name of \<open>Object.prototype\<close>. These
  are the names \<open>Object.prototype\<close> has: methods, and the accessor \<open>__proto__\<close>.
\<close>

definition Object_prototype :: "string list" where
  "Object_prototype =
     [''constructor'', ''hasOwnProperty'', ''isPrototypeOf'', ''propertyIsEnumerable'',
      ''toLocaleString'', ''toString'', ''valueOf'', ''__proto__'',
      ''__defineGetter__'', ''__defineSetter__'', ''__lookupGetter__'', ''__lookupSetter__'']"

datatype js_value = Entry status_style | Inherited string | Undefined

definition get_property :: "string \<Rightarrow> js_value" where
  "get_property key =
     (case map_of STATUS_STYLES key of
        Some s \<Rightarrow> Entry s
      | None \<Rightarrow> if key \<in> set Object_prototype then Inherited key else Undefined)"

text \<open>\<open>a ?? b\<close> is \<open>b\<close> only when \<open>a\<close> is \<open>null\<close> or \<open>undefined\<close>.\<close>

definition nullish_or :: "js_value \<Rightarrow> js_value \<Rightarrow> js_value" where
  "nullish_or a b = (case a of Undefined \<Rightarrow> b | _ \<Rightarrow> a)"

datatype render_error = TypeError | Invalid_element_type

text \<open>
  \<open>const { cls, icon: Icon } = STATUS_STYLES[order.status] ?? STATUS_STYLES["Confirmed"]\<close>
  and the badge \<open><span className={...cls}><Icon /> ...\<close>. Destructuring \<open>undefined\<close>
  throws; an inherited member has neither a \<open>cls\<close> nor an \<open>icon\<close>, so \<open>Icon\<close> is
  \<open>undefined\<close> there, which is no element type and fails the render.
\<close>

definition status_badge :: "string \<Rightarrow> render_error + status_style" where
  "status_badge s =
     (case nullish_or (get_property s) (get_property ''Confirmed'') of
        Entry st \<Rightarrow> Inr st
      | Inherited _ \<Rightarrow> Inl Invalid_element_type
      | Undefined \<Rightarrow> Inl TypeError)"

text \<open>The badges of the rows the page shows, failing where the first badge fails.\<close>

fun render_badges :: "order_row list \<Rightarrow> render_error + status_style list" where
  "render_badges [] = Inr []"
| "render_badges (od # os) =
     (case status_badge (status od) of
        Inl e \<Rightarrow> Inl e
      | Inr b \<Rightarrow> (case render_badges os of Inl e \<Rightarrow> Inl e | Inr bs \<Rightarrow> Inr (b # bs)))"

section \<open>Sample states\<close>

definition ex_orders :: "order_row list" where
  "ex_orders =
     [\<lparr>order_id = ''o1'', user_id = ''u1'', show_id = ''s1'', status = ''Confirmed''\<rparr>,
      \<lparr>order_id = ''o2'', user_id = ''u1'', show_id = ''s2'', status = ''Ready''\<rparr>,
      \<lparr>order_id = ''o3'', user_id = ''u2'', show_id = ''s1'', status = ''Collected''\<rparr>]"

definition ex_admin :: admin_state where
  "ex_admin = \<lparr>remote = ex_orders, orders = ex_orders, filterShow = ''all'',
               ordersView = Active, activeTab = Orders, in_flight = []\<rparr>"

definition ex_my_orders :: my_orders_state where
  "ex_my_orders = \<lparr>my_orders = [], loading = False, my_tab = TabActive\<rparr>"

definition ex_form :: form_state where
  "ex_form =
     \<lparr>showForm = \<lparr>movie_id = ''m1'', screen = ''Screen 1'', show_time = ''2026-01-01T10:00''\<rparr>,
      savingShow = False\<rparr>"

definition ex_reply :: show_reply where
  "ex_reply = \<lparr>data = Some ''show-1'', error = None\<rparr>"

section \<open>Seat generation\<close>

text \<open>The column numbers 1 to 8 print as the one-character strings of \<open>12345678\<close>.\<close>

lemma columns:
  "map (\<lambda>i. f (string_of_nat (i + 1))) [0..<COLS] = map (\<lambda>c. f [c]) ''12345678''"
  by (simp add: COLS_def digit_def upt_conv_Cons)

lemma seatRows_unfold:
  "seatRows sid =
     concat (map (\<lambda>row.
        map (\<lambda>c. \<lparr>seat_show_id = sid, seat_number = row @ [c], is_booked = False\<rparr>)
          ''12345678'') ROWS)"
  unfolding seatRows_def
  using columns [of "\<lambda>n. \<lparr>seat_show_id = sid, seat_number = row @ n, is_booked = False\<rparr>" for row]
  by simp

lemma seat_numbers:
  "map seat_number (seatRows sid) =
     [''A1'', ''A2'', ''A3'', ''A4'', ''A5'', ''A6'', ''A7'', ''A8'',
      ''B1'', ''B2'', ''B3'', ''B4'', ''B5'', ''B6'', ''B7'', ''B8'',
      ''C1'', ''C2'', ''C3'', ''C4'', ''C5'', ''C6'', ''C7'', ''C8'',
      ''D1'', ''D2'', ''D3'', ''D4'', ''D5'', ''D6'', ''D7'', ''D8'',
      ''E1'', ''E2'', ''E3'', ''E4'', ''E5'', ''E6'', ''E7'', ''E8'',
      ''F1'', ''F2'', ''F3'', ''F4'', ''F5'', ''F6'', ''F7'', ''F8'',
      ''G1'', ''G2'', ''G3'', ''G4'', ''G5'', ''G6'', ''G7'', ''G8'',
      ''H1'', ''H2'', ''H3'', ''H4'', ''H5'', ''H6'', ''H7'', ''H8'']"
  by (simp add: seatRows_unfold ROWS_def)

lemma seat_flags: "set (map is_booked (seatRows sid)) = {False}"
  by (simp add: seatRows_unfold ROWS_def)

lemma seat_shows: "set (map seat_show_id (seatRows sid)) = {sid}"
  by (simp add: seatRows_unfold ROWS_def)

text \<open>
  Claim C2. For every show identifier, seat generation yields exactly 64 seat rows, their
  labels are A1..A8, B1..B8, ..., H1..H8 in this order, every row has its booked flag
  false, and every row carries the identifier of the show.
\<close>

theorem seatRows_grid:
  "length (seatRows sid) = 64 \<and>
   map seat_number (seatRows sid) =
     [''A1'', ''A2'', ''A3'', ''A4'', ''A5'', ''A6'', ''A7'', ''A8'',
      ''B1'', ''B2'', ''B3'', ''B4'', ''B5'', ''B6'', ''B7'', ''B8'',
      ''C1'', ''C2'', ''C3'', ''C4'', ''C5'', ''C6'', ''C7'', ''C8'',
      ''D1'', ''D2'', ''D3'', ''D4'', ''D5'', ''D6'', ''D7'', ''D8'',
      ''E1'', ''E2'', ''E3'', ''E4'', ''E5'', ''E6'', ''E7'', ''E8'',
      ''F1'', ''F2'', ''F3'', ''F4'', ''F5'', ''F6'', ''F7'', ''F8'',
      ''G1'', ''G2'', ''G3'', ''G4'', ''G5'', ''G6'', ''G7'', ''G8'',
      ''H1'', ''H2'', ''H3'', ''H4'', ''H5'', ''H6'', ''H7'', ''H8''] \<and>
   set (map is_booked (seatRows sid)) = {False} \<and>
   set (map seat_show_id (seatRows sid)) = {sid}"
proof -
  have "length (map seat_number (seatRows sid)) = 64"
    by (simp only: seat_numbers) simp
  then have "length (seatRows sid) = 64" by simp
  then show ?thesis
    by (intro conjI) (rule seat_numbers seat_flags seat_shows | assumption)+
qed

theorem seatRows_grid_witness:
  "length (seatRows ''show-1'') = 64 \<and>
   set (map is_booked (seatRows ''show-1'')) = {False} \<and>
   set (map seat_show_id (seatRows ''show-1'')) = {''show-1''}"
  using seatRows_grid [of "''show-1''"]
  apply (elim conjE)
  apply (intro conjI)
    apply assumption+
  done

section \<open>A show whose seats could not be inserted\<close>

text \<open>
  Claim C5. When the form is filled in, the show is inserted (the reply has the row and no
  error) and the insert of the seats answers with an error, the handler has asked for
  both inserts and reports exactly one thing, a failure whose text is
  "Show created but seats failed: " followed by the error's message; it reports no
  success, does not reload the shows and keeps the form as it was.
\<close>

theorem seats_failure_reported:
  assumes "movie_id (showForm st) \<noteq> []" and "screen (showForm st) \<noteq> []"
    and "show_time (showForm st) \<noteq> []"
    and "error reply = None" and "data reply = Some sid"
  shows "handleAddShow (Some t) reply (Some e) st =
           ([Insert_show \<lparr>ins_movie_id = movie_id (showForm st),
                          ins_screen = screen (showForm st), ins_show_time = t\<rparr>,
             Insert_seats (seatRows sid),
             Toast_error (''Show created but seats failed: '' @ message e)],
            st\<lparr>savingShow := False\<rparr>) \<and>
         filter is_failure (fst (handleAddShow (Some t) reply (Some e) st)) =
           [Toast_error (''Show created but seats failed: '' @ message e)] \<and>
         filter is_success (fst (handleAddShow (Some t) reply (Some e) st)) = [] \<and>
         Fetch_shows \<notin> set (fst (handleAddShow (Some t) reply (Some e) st)) \<and>
         showForm (snd (handleAddShow (Some t) reply (Some e) st)) = showForm st"
  using assms by (simp add: handleAddShow_def Let_def is_failure_def is_success_def)

theorem seats_failure_reported_witness:
  "movie_id (showForm ex_form) \<noteq> [] \<and> screen (showForm ex_form) \<noteq> [] \<and>
   show_time (showForm ex_form) \<noteq> [] \<and> error ex_reply = None \<and>
   data ex_reply = Some ''show-1'' \<and>
   filter is_failure
     (fst (handleAddShow (Some ''2026-01-01T04:30:00.000Z'') ex_reply
        (Some \<lparr>message = ''timeout''\<rparr>) ex_form)) =
     [Toast_error ''Show created but seats failed: timeout''] \<and>
   filter is_success
     (fst (handleAddShow (Some ''2026-01-01T04:30:00.000Z'') ex_reply
        (Some \<lparr>message = ''timeout''\<rparr>) ex_form)) = []"
proof -
  have h: "movie_id (showForm ex_form) \<noteq> []" "screen (showForm ex_form) \<noteq> []"
    "show_time (showForm ex_form) \<noteq> []" "error ex_reply = None"
    "data ex_reply = Some ''show-1''"
    by (simp_all add: ex_form_def ex_reply_def)
  from seats_failure_reported [OF h, of "''2026-01-01T04:30:00.000Z''" "\<lparr>message = ''timeout''\<rparr>"] h
  show ?thesis by (simp add: is_failure_def is_success_def)
qed

section \<open>Status updates on the dashboard\<close>

lemma set_status_twice: "set_status oid s (set_status oid s xs) = set_status oid s xs"
  by (simp add: set_status_def)

lemma set_status_ids: "map order_id (set_status oid s xs) = map order_id xs"
  by (simp add: set_status_def)


lemma set_status_statuses:
  "map status (set_status oid s xs) = map (\<lambda>od. if order_id od = oid then s else status od) xs"
  by (simp add: set_status_def)

lemma set_status_same:
  "(\<And>od. od \<in> set xs \<Longrightarrow> order_id od = oid \<Longrightarrow> status od = s) \<Longrightarrow> set_status oid s xs = xs"
  unfolding set_status_def by (induction xs) simp_all






subsection \<open>Steps in any order\<close>









subsection \<open>A click that is answered at once\<close>




text \<open>
  The steps do run in other orders. The order \<open>o2\<close> is Ready; the admin clicks Collected
  and, before the answer is there, Preparing, which is still on the row. The first answer
  makes the order Collected, the second makes it Preparing.
\<close>

lemma collected_then_preparing:
  "map_option (\<lambda>st. map status (orders st))
     (run [Click (ex_orders ! 1) ''Collected'', Click (ex_orders ! 1) ''Preparing'',
           Serve 0 None, Settle 0] ex_admin) =
     Some [''Confirmed'', ''Collected'', ''Collected''] \<and>
   map_option (\<lambda>st. map status (orders st))
     (run [Click (ex_orders ! 1) ''Collected'', Click (ex_orders ! 1) ''Preparing'',
           Serve 0 None, Settle 0, Serve 0 None, Settle 0] ex_admin) =
     Some [''Confirmed'', ''Preparing'', ''Collected'']"
  by (simp add: ex_admin_def ex_orders_def click_def serve_def settle_def Let_def filtered_def
      activeOrders_def byShow_def action_buttons_def set_status_def)




text \<open>
  Claim C3. The row of an order has the button Collected exactly when the view is the
  active one and the order's status is Ready; and a click on Collected in the row of an
  order can be done exactly when the orders tab and the active view are open, the order
  is in the table shown and its status is Ready. So an order that is Confirmed or Preparing
  cannot be marked Collected from its row.
\<close>

theorem collected_button_only_when_ready:
  "(''Collected'' \<in> set (action_buttons v od)) = (v = Active \<and> status od = ''Ready'') \<and>
   (click od ''Collected'' st \<noteq> None) =
     (activeTab st = Orders \<and> ordersView st = Active \<and> od \<in> set (filtered st) \<and>
      status od = ''Ready'')"
  by (auto simp add: action_buttons_def click_def)

theorem collected_button_only_when_ready_witness:
  "click (ex_orders ! 0) ''Collected'' ex_admin = None \<and>
   click (ex_orders ! 1) ''Collected'' ex_admin \<noteq> None \<and>
   ''Collected'' \<notin> set (action_buttons Active (ex_orders ! 0))"
  using collected_button_only_when_ready [of Active "ex_orders ! 0" ex_admin]
    collected_button_only_when_ready [of Active "ex_orders ! 1" ex_admin]
  by (simp add: ex_admin_def ex_orders_def filtered_def activeOrders_def byShow_def)

text \<open>
  Claim C4, as amended. \<open>updateStatus\<close> checks nothing: whatever string it is given, known
  or not, becomes the status of the orders with that identifier in the dashboard's list
  (and in the table, when the service takes the write), and the other orders keep theirs.
  A request for the status the order already has is taken like any other and leaves the
  list as it was. The dashboard's own buttons pass Preparing, Ready and Collected only.
\<close>

theorem updateStatus_sets_any_status:
  "map status (orders (updateStatus refused oid s st)) =
     map (\<lambda>od. if order_id od = oid then s else status od) (orders st) \<and>
   map status (remote (updateStatus None oid s st)) =
     map (\<lambda>od. if order_id od = oid then s else status od) (remote st) \<and>
   ((\<forall>od \<in> set (orders st). order_id od = oid \<longrightarrow> status od = s) \<longrightarrow>
      orders (updateStatus refused oid s st) = orders st) \<and>
   set (action_buttons v x) \<subseteq> {''Preparing'', ''Ready'', ''Collected''}"
proof -
  have same: "(\<forall>od \<in> set (orders st). order_id od = oid \<longrightarrow> status od = s) \<longrightarrow>
      orders (updateStatus refused oid s st) = orders st"
    by (simp add: updateStatus_def set_status_same)
  have buttons: "set (action_buttons v x) \<subseteq> {''Preparing'', ''Ready'', ''Collected''}"
    by (auto simp add: action_buttons_def)
  from same buttons set_status_statuses [of oid s "orders st"]
    set_status_statuses [of oid s "remote st"]
  show ?thesis by (simp add: updateStatus_def)
qed

theorem updateStatus_sets_any_status_witness:
  "orders (updateStatus None ''o2'' ''Ready'' ex_admin) = orders ex_admin \<and>
   map status (orders (updateStatus None ''o1'' ''Ready'' ex_admin)) =
     [''Ready'', ''Ready'', ''Collected'']"
proof -
  have h: "\<forall>od \<in> set (orders ex_admin). order_id od = ''o2'' \<longrightarrow> status od = ''Ready''"
    by (simp add: ex_admin_def ex_orders_def)
  from updateStatus_sets_any_status [of None "''o2''" "''Ready''" ex_admin] h
  have "orders (updateStatus None ''o2'' ''Ready'' ex_admin) = orders ex_admin" by blast
  moreover from updateStatus_sets_any_status [of None "''o1''" "''Ready''" ex_admin]
  have "map status (orders (updateStatus None ''o1'' ''Ready'' ex_admin)) =
     [''Ready'', ''Ready'', ''Collected'']"
    by (simp add: ex_admin_def ex_orders_def)
  ultimately show ?thesis by blast
qed

text \<open>
  Against claim C4 as it is written: \<open>Bogus\<close> is none of the four statuses, and the request
  is neither refused nor without effect: the order \<open>o1\<close> was Confirmed and is \<open>Bogus\<close>
  afterwards, in the list and in the table.
\<close>

theorem unknown_status_is_written:
  "''Bogus'' \<notin> set known_statuses \<and>
   map status (orders ex_admin) = [''Confirmed'', ''Ready'', ''Collected''] \<and>
   map status (orders (updateStatus None ''o1'' ''Bogus'' ex_admin)) =
     [''Bogus'', ''Ready'', ''Collected''] \<and>
   map status (remote (updateStatus None ''o1'' ''Bogus'' ex_admin)) =
     [''Bogus'', ''Ready'', ''Collected'']"
  by (simp add: known_statuses_def ex_admin_def ex_orders_def updateStatus_def set_status_def)

text \<open>
  Claim C9. Applying \<open>updateStatus\<close> with the same order and status a second time gives
  the state the first application gave, when the service answers both alike; the list the
  dashboard shows is the same whatever the two answers were, and so is the table once the
  first write was taken. The operation has no failing outcome: even an error answered by
  the service leaves the list as a write that was taken does.
\<close>

theorem updateStatus_idempotent:
  "updateStatus r oid s (updateStatus r oid s st) = updateStatus r oid s st \<and>
   orders (updateStatus r2 oid s (updateStatus r1 oid s st)) =
     orders (updateStatus r1 oid s st) \<and>
   remote (updateStatus r2 oid s (updateStatus None oid s st)) =
     remote (updateStatus None oid s st) \<and>
   orders (updateStatus (Some e) oid s st) = orders (updateStatus None oid s st)"
  by (simp add: updateStatus_def set_status_twice split: option.splits)

theorem updateStatus_idempotent_witness:
  "map status (orders (updateStatus None ''o1'' ''Preparing''
      (updateStatus None ''o1'' ''Preparing'' ex_admin))) =
     [''Preparing'', ''Ready'', ''Collected''] \<and>
   updateStatus None ''o1'' ''Preparing'' (updateStatus None ''o1'' ''Preparing'' ex_admin) =
     updateStatus None ''o1'' ''Preparing'' ex_admin"
  using updateStatus_idempotent [of None "''o1''" "''Preparing''" ex_admin]
  by (simp add: updateStatus_def set_status_def ex_admin_def ex_orders_def)

section \<open>Active orders and history\<close>

lemma split_by_status:
  "mset (filter (\<lambda>od. status od \<noteq> c) xs) + mset (filter (\<lambda>od. status od = c) xs) = mset xs"
  by (induction xs) simp_all

text \<open>
  Claim C7. The customer's page splits the one list it fetched with one test, the status
  being Collected or not: the active orders are exactly the fetched orders that are not
  Collected, the history exactly those that are, no order is in both, and the two
  together hold every fetched order as often as the fetched list does. The dashboard
  splits the orders of the selected show in the same way.
\<close>

theorem active_history_partition:
  "mset (active os) + mset (history os) = mset os \<and>
   set (active os) \<inter> set (history os) = {} \<and>
   set (active os) = {od \<in> set os. status od \<noteq> ''Collected''} \<and>
   set (history os) = {od \<in> set os. status od = ''Collected''} \<and>
   length (active os) + length (history os) = length os \<and>
   mset (activeOrders st) + mset (historyOrders st) = mset (byShow st)"
proof -
  have m: "mset (active os) + mset (history os) = mset os"
    unfolding active_def history_def by (rule split_by_status)
  have "size (mset (active os) + mset (history os)) = size (mset os)"
    by (simp only: m)
  then have "length (active os) + length (history os) = length os" by simp
  moreover have "set (active os) \<inter> set (history os) = {}"
    by (auto simp add: active_def history_def)
  moreover have "mset (activeOrders st) + mset (historyOrders st) = mset (byShow st)"
    unfolding activeOrders_def historyOrders_def by (rule split_by_status)
  ultimately show ?thesis using m by (simp add: active_def history_def)
qed

theorem active_history_partition_witness:
  "map order_id (active ex_orders) = [''o1'', ''o2''] \<and>
   map order_id (history ex_orders) = [''o3''] \<and>
   mset (active ex_orders) + mset (history ex_orders) = mset ex_orders \<and>
   set (active ex_orders) \<inter> set (history ex_orders) = {}"
proof -
  have "map order_id (active ex_orders) = [''o1'', ''o2'']"
    "map order_id (history ex_orders) = [''o3'']"
    by (simp_all add: active_def history_def ex_orders_def)
  with active_history_partition [of ex_orders ex_admin] show ?thesis by blast
qed

section \<open>What the two subscriptions are told\<close>

text \<open>
  Claim C8, as amended. The dashboard subscribes to every kind of change of the orders
  table: an insert, an update and a delete of an order each run its fetch. The customer's
  page subscribes to updates only: an update of an order runs its fetch, an insert (or a
  delete) does not, and leaves the page as it is.
\<close>

theorem subscriptions_cover:
  "delivers admin_subscription (order_change k) \<and>
   delivers my_orders_subscription (order_change k) = (k = UPDATE) \<and>
   admin_on_change (order_change k) res st = fetchData res st \<and>
   my_orders_on_change (order_change k) res' st' =
     (if k = UPDATE then fetchOrders res' st' else st')"
  by (cases k)
    (simp_all add: delivers_def admin_subscription_def my_orders_subscription_def
      order_change_def kind_name_def admin_on_change_def my_orders_on_change_def)

theorem subscriptions_cover_witness:
  "orders (admin_on_change (order_change INSERT) (Some []) ex_admin) = [] \<and>
   my_orders (my_orders_on_change (order_change UPDATE) (Some ex_orders) ex_my_orders) =
     ex_orders"
  using subscriptions_cover [of INSERT "Some []" ex_admin "Some ex_orders" ex_my_orders]
    subscriptions_cover [of UPDATE "Some []" ex_admin "Some ex_orders" ex_my_orders]
  by (simp add: fetchData_def fetchOrders_def)

text \<open>
  Against claim C8 as it is written: an insert of an order is not handed to the
  subscription of the customer's page, so the page that showed no orders still shows none
  although the orders are there to be fetched.
\<close>

theorem insert_not_seen_by_my_orders:
  "\<not> delivers my_orders_subscription (order_change INSERT) \<and>
   my_orders (my_orders_on_change (order_change INSERT) (Some ex_orders) ex_my_orders) = []"
  by (simp add: delivers_def my_orders_subscription_def order_change_def kind_name_def
      my_orders_on_change_def ex_my_orders_def)

section \<open>The status badge of the customer's page\<close>

text \<open>
  The fallback does what it is there for on every status that is neither one of the four
  nor the name of a member of \<open>Object.prototype\<close>: the badge is the one of Confirmed.
\<close>

lemma status_badge_fallback:
  "s \<notin> set Object_prototype \<Longrightarrow> s \<notin> set known_statuses \<Longrightarrow>
   status_badge s = Inr \<lparr>cls = ''bg-primary/10 text-primary'', icon = CheckCircle\<rparr>"
  by (simp add: status_badge_def nullish_or_def get_property_def STATUS_STYLES_def
      known_statuses_def)

lemma status_badge_known:
  "s \<in> set known_statuses \<Longrightarrow> \<exists>b. status_badge s = Inr b \<and> map_of STATUS_STYLES s = Some b"
  by (auto simp add: status_badge_def nullish_or_def get_property_def STATUS_STYLES_def
      known_statuses_def)

text \<open>
  Claim C10 fails on the code. The status \<open>constructor\<close> is none of the four, yet the lookup
  finds the member of that name that the table inherits, the fallback is not taken, and
  the badge has no icon to render: the page with such an order fails to render.
\<close>

theorem inherited_status_breaks_badge:
  "''constructor'' \<notin> set known_statuses \<and>
   get_property ''constructor'' = Inherited ''constructor'' \<and>
   status_badge ''constructor'' = Inl Invalid_element_type \<and>
   render_badges
     [\<lparr>order_id = ''o1'', user_id = ''u1'', show_id = ''s1'', status = ''constructor''\<rparr>] = Inl Invalid_element_type"
  by (simp add: known_statuses_def status_badge_def nullish_or_def get_property_def
      STATUS_STYLES_def Object_prototype_def)

end
